theory Spec2Isabelle
  imports Main
begin

section \<open>The ledger node of \<^verbatim>\<open>node_server.py\<close>\<close>

text \<open>
  The module defines a class \<^verbatim>\<open>Block\<close>, a class \<^verbatim>\<open>Blockchain\<close> and the functions
  \<^verbatim>\<open>consensus\<close> and \<^verbatim>\<open>create_chain_from_dump\<close>. Python raises where a name or an
  attribute is missing, so every function of the model returns a sum, \<open>Inl\<close> carrying the
  exception raised. A function that mutates an object returns the object as it is left
  behind, also when it raises.
\<close>

subsection \<open>Exceptions\<close>

datatype error =
    AttributeError
  | NameError
  | TypeError
  | IndexError
  | KeyError
  | Exception string

subsection \<open>Blocks\<close>

text \<open>
  A \<^verbatim>\<open>Block\<close> instance. \<open>time_stamp\<close> is the timestamp as \<^verbatim>\<open>str\<close> renders it, a
  transaction is its rendering by \<^verbatim>\<open>repr\<close>. The attribute \<^verbatim>\<open>hash\<close> can be deleted
  (\<^verbatim>\<open>delattr\<close>, line 146), so it is optional: \<open>None\<close> is an instance without it.
\<close>

record block =
  index :: int
  time_stamp :: string
  transactions :: "string list"
  previous_hash :: string
  nonce :: int
  hash :: "string option"

subsection \<open>Names the module leaves to its surroundings\<close>

text \<open>
  Three names used by the module are bound nowhere in it:
  \<^item> \<^verbatim>\<open>Block.__init__\<close> (line 26) calls \<^verbatim>\<open>self.generate_hash()\<close>; the class defines
    \<^verbatim>\<open>__init__\<close> and \<^verbatim>\<open>compute_hash\<close> only (the \<^verbatim>\<open>Block\<close> imported from \<^verbatim>\<open>lib\<close> on
    line 1 is shadowed by the class statement on line 10);
  \<^item> \<^verbatim>\<open>proof_of_work\<close> (line 102) reads the bare name \<^verbatim>\<open>difficulty\<close>; the module binds
    only the class attribute \<^verbatim>\<open>Blockchain.difficulty\<close>;
  \<^item> \<^verbatim>\<open>consensus\<close> (line 169) reads \<^verbatim>\<open>requests\<close>, which the module never imports.

  Python resolves a name when the line runs, and raises \<^verbatim>\<open>AttributeError\<close> or
  \<^verbatim>\<open>NameError\<close> where it finds none. The model takes the outcome of each of the three
  lookups from a record, so that what a function does past the lookup is part of the
  model too: \<open>None\<close> and \<open>False\<close> are a name that is not bound. \<open>node_server\<close> is the
  module as it is written, with none of the three bound.
\<close>

record namespace =
  Block_generate_hash :: "(block \<Rightarrow> string) option"
  global_difficulty :: "nat option"
  global_requests :: bool

definition node_server :: namespace where
  "node_server = \<lparr>Block_generate_hash = None, global_difficulty = None, global_requests = False\<rparr>"

subsection \<open>Rendering values as text\<close>

definition digit_char :: "nat \<Rightarrow> char" where
  "digit_char n = ''0123456789'' ! (n mod 10)"

fun str_nat :: "nat \<Rightarrow> string" where
  "str_nat n = (if n < 10 then [digit_char n] else str_nat (n div 10) @ [digit_char n])"

definition str_int :: "int \<Rightarrow> string" where
  "str_int i = (if i < 0 then CHR ''-'' # str_nat (nat (- i)) else str_nat (nat i))"

fun join :: "string \<Rightarrow> string list \<Rightarrow> string" where
  "join sep [] = []"
| "join sep [x] = x"
| "join sep (x # y # ys) = x @ sep @ join sep (y # ys)"

definition str_list :: "string list \<Rightarrow> string" where
  "str_list xs = ''['' @ join '', '' xs @ '']''"

definition startswith :: "string \<Rightarrow> string \<Rightarrow> bool" where
  "startswith s p = (take (length p) s = p)"

subsection \<open>Class \<^verbatim>\<open>Block\<close>\<close>

text \<open>
  \<^verbatim>\<open>Block.__init__(self, index, transactions, time_stamp, previous_hash)\<close>, lines 13-26.
  The argument \<open>time_stamp_arg\<close> is ignored: line 22 stores the clock's reading \<open>now\<close>.
  Line 26 assigns the result of \<^verbatim>\<open>self.generate_hash()\<close>, called on the instance that has
  no \<^verbatim>\<open>hash\<close> yet; where the method does not resolve, the call raises and no instance
  is returned.
\<close>

definition Block_init ::
  "namespace \<Rightarrow> int \<Rightarrow> string list \<Rightarrow> string \<Rightarrow> string \<Rightarrow> string \<Rightarrow> error + block" where
  "Block_init ns index_arg transactions_arg time_stamp_arg previous_hash_arg now =
     (let self = \<lparr>index = index_arg, time_stamp = now, transactions = transactions_arg,
                  previous_hash = previous_hash_arg, nonce = 0, hash = None\<rparr>
      in case Block_generate_hash ns of
           None \<Rightarrow> Inl AttributeError
         | Some generate_hash \<Rightarrow> Inr (self\<lparr>hash := Some (generate_hash self)\<rparr>))"

text \<open>
  \<^verbatim>\<open>Block.compute_hash\<close>, lines 28-34. \<open>H\<close> is SHA-256 of the encoded header, as a hex
  digest; it is a parameter of the model.
\<close>

definition compute_hash :: "(string \<Rightarrow> string) \<Rightarrow> block \<Rightarrow> string" where
  "compute_hash H self =
     H (time_stamp self @ str_list (transactions self) @ previous_hash self @ str_int (nonce self))"

subsection \<open>Class \<^verbatim>\<open>Blockchain\<close>\<close>

text \<open>The class attribute \<^verbatim>\<open>Blockchain.difficulty\<close>, line 48.\<close>

definition difficulty :: nat where
  "difficulty = 2"

record blockchain =
  chain :: "block list"
  unconfirmed_transactions :: "string list"
  previous_block :: "string option"

text \<open>
  \<^verbatim>\<open>last_block\<close>, lines 66-68: \<^verbatim>\<open>self.chain[-1]\<close> raises \<^verbatim>\<open>IndexError\<close> on an empty
  list.
\<close>

definition last_block :: "blockchain \<Rightarrow> error + block" where
  "last_block self = (if chain self = [] then Inl IndexError else Inr (last (chain self)))"

text \<open>\<^verbatim>\<open>is_valid\<close>, lines 91-96.\<close>

definition is_valid :: "(string \<Rightarrow> string) \<Rightarrow> block \<Rightarrow> string \<Rightarrow> bool" where
  "is_valid H blk block_hash =
     (startswith block_hash (replicate difficulty (CHR ''0'')) \<and> block_hash = compute_hash H blk)"

text \<open>
  \<^verbatim>\<open>add_block\<close>, lines 70-89. Line 87 rebinds the local name \<^verbatim>\<open>proof\<close>; the block is
  appended as it was passed.
\<close>

definition add_block ::
  "(string \<Rightarrow> string) \<Rightarrow> blockchain \<Rightarrow> block \<Rightarrow> string \<Rightarrow> (error + bool) \<times> blockchain" where
  "add_block H self blk proof =
     (case last_block self of
        Inl e \<Rightarrow> (Inl e, self)
      | Inr lb \<Rightarrow>
          (case hash lb of
             None \<Rightarrow> (Inl AttributeError, self)
           | Some previous_block_hash \<Rightarrow>
               if previous_block_hash \<noteq> previous_hash blk then (Inr False, self)
               else if \<not> is_valid H blk proof then (Inr False, self)
               else (let proof' = previous_hash blk
                     in (Inr True, self\<lparr>chain := chain self @ [blk]\<rparr>))))"

text \<open>\<^verbatim>\<open>genesis_block\<close>, lines 56-64, and \<^verbatim>\<open>Blockchain.__init__\<close>, lines 50-54.
  \<open>clock k\<close> is the \<open>k\<close>-th reading of \<^verbatim>\<open>datetime.datetime.now()\<close> in a call.\<close>

definition genesis_block ::
  "namespace \<Rightarrow> (string \<Rightarrow> string) \<Rightarrow> (nat \<Rightarrow> string) \<Rightarrow> blockchain \<Rightarrow> error + blockchain" where
  "genesis_block ns H clock self =
     (case Block_init ns 0 [] (clock 0) ''0'' (clock 1) of
        Inl e \<Rightarrow> Inl e
      | Inr g \<Rightarrow> Inr (self\<lparr>chain := chain self @ [g\<lparr>hash := Some (compute_hash H g)\<rparr>]\<rparr>))"

definition Blockchain_init ::
  "namespace \<Rightarrow> (string \<Rightarrow> string) \<Rightarrow> (nat \<Rightarrow> string) \<Rightarrow> error + blockchain" where
  "Blockchain_init ns H clock =
     (case genesis_block ns H clock
             \<lparr>chain = [], unconfirmed_transactions = [], previous_block = None\<rparr> of
        Inl e \<Rightarrow> Inl e
      | Inr self \<Rightarrow>
          (case last_block self of
             Inl e \<Rightarrow> Inl e
           | Inr lb \<Rightarrow>
               (case hash lb of
                  None \<Rightarrow> Inl AttributeError
                | Some h \<Rightarrow> Inr (self\<lparr>previous_block := Some h\<rparr>))))"

text \<open>\<^verbatim>\<open>add_new_transaction\<close>, lines 109-110.\<close>

definition add_new_transaction :: "blockchain \<Rightarrow> string \<Rightarrow> blockchain" where
  "add_new_transaction self tx =
     self\<lparr>unconfirmed_transactions := unconfirmed_transactions self @ [tx]\<rparr>"

text \<open>
  \<^verbatim>\<open>proof_of_work\<close>, lines 98-107. The loop has no bound, so it is a partial function:
  \<open>None\<close> is a search that never ends. Each test of the loop reads the bare name
  \<^verbatim>\<open>difficulty\<close> first (\<^verbatim>\<open>proof[:difficulty]\<close>), which raises where the name is unbound.
  Line 106 sets the nonce back to 0 before the digest found is returned.
\<close>

partial_function (option) proof_of_work_loop ::
  "(string \<Rightarrow> string) \<Rightarrow> nat option \<Rightarrow> block \<Rightarrow> string \<Rightarrow> ((error + string) \<times> block) option" where
  "proof_of_work_loop H gd blk proof =
     (case gd of
        None \<Rightarrow> Some (Inl NameError, blk)
      | Some d \<Rightarrow>
          if take d proof \<noteq> replicate difficulty (CHR ''0'')
          then proof_of_work_loop H gd (blk\<lparr>nonce := nonce blk + 1\<rparr>)
                 (compute_hash H (blk\<lparr>nonce := nonce blk + 1\<rparr>))
          else Some (Inr proof, blk))"

definition proof_of_work ::
  "namespace \<Rightarrow> (string \<Rightarrow> string) \<Rightarrow> block \<Rightarrow> ((error + string) \<times> block) option" where
  "proof_of_work ns H blk =
     (case proof_of_work_loop H (global_difficulty ns) blk (compute_hash H blk) of
        None \<Rightarrow> None
      | Some (Inl e, blk') \<Rightarrow> Some (Inl e, blk')
      | Some (Inr proof, blk') \<Rightarrow> Some (Inr proof, blk'\<lparr>nonce := 0\<rparr>))"

text \<open>
  \<^verbatim>\<open>interface\<close>, lines 112-132. It returns \<^verbatim>\<open>False\<close> (\<open>NothingToMine\<close>) or the
  new block's index (\<open>MinedIndex\<close>). The call
  on lines 122-125 passes the keywords \<^verbatim>\<open>index\<close>, \<^verbatim>\<open>transactions\<close>, \<^verbatim>\<open>timestamp\<close> and
  \<^verbatim>\<open>previous_hash\<close>; Python evaluates the four arguments, then binds them to the
  parameters of \<^verbatim>\<open>Block.__init__\<close> and raises \<^verbatim>\<open>TypeError\<close> for a keyword that is no
  parameter or a parameter left without a value.
\<close>

datatype mined = NothingToMine | MinedIndex int

definition Block_init_params :: "string list" where
  "Block_init_params = [''index'', ''transactions'', ''time_stamp'', ''previous_hash'']"

definition bind_keywords :: "string list \<Rightarrow> string list \<Rightarrow> error option" where
  "bind_keywords params keywords =
     (if list_ex (\<lambda>k. k \<notin> set params) keywords then Some TypeError
      else if list_ex (\<lambda>p. p \<notin> set keywords) params then Some TypeError
      else None)"

definition interface ::
  "namespace \<Rightarrow> (string \<Rightarrow> string) \<Rightarrow> (nat \<Rightarrow> string) \<Rightarrow> blockchain
     \<Rightarrow> ((error + mined) \<times> blockchain) option" where
  "interface ns H clock self =
     (if unconfirmed_transactions self = [] then Some (Inr NothingToMine, self)
      else case last_block self of
        Inl e \<Rightarrow> Some (Inl e, self)
      | Inr lb \<Rightarrow>
          (case hash lb of
             None \<Rightarrow> Some (Inl AttributeError, self)
           | Some last_hash \<Rightarrow>
               (case bind_keywords Block_init_params
                       [''index'', ''transactions'', ''timestamp'', ''previous_hash''] of
                  Some e \<Rightarrow> Some (Inl e, self)
                | None \<Rightarrow>
                    (case Block_init ns (index lb + 1) (unconfirmed_transactions self)
                            (clock 0) last_hash (clock 1) of
                       Inl e \<Rightarrow> Some (Inl e, self)
                     | Inr new_block \<Rightarrow>
                         (case proof_of_work ns H new_block of
                            None \<Rightarrow> None
                          | Some (Inl e, new_block') \<Rightarrow> Some (Inl e, self)
                          | Some (Inr proof, new_block') \<Rightarrow>
                              (case add_block H self new_block' proof of
                                 (Inl e, self') \<Rightarrow> Some (Inl e, self')
                               | (Inr added, self') \<Rightarrow>
                                   Some (Inr (MinedIndex (index new_block')),
                                         self'\<lparr>unconfirmed_transactions := []\<rparr>)))))))"

subsection \<open>Checking a whole chain\<close>

text \<open>
  \<^verbatim>\<open>check_chain_validity\<close> (lines 134-155) reads attributes of whatever the list holds.
  It is called on the chain of a peer's JSON answer (line 172), whose elements are
  dictionaries, and the attribute \<^verbatim>\<open>hash\<close> of a dictionary does not exist; on a
  \<^verbatim>\<open>Block\<close> instance the attribute exists until it is deleted. A dictionary of a dump is
  modelled by the keys the module reads from it (lines 286-290), a missing key being
  \<open>None\<close>.
\<close>

record block_data =
  d_index :: "int option"
  d_transactions :: "string list option"
  d_timestamp :: "string option"
  d_previous_hash :: "string option"
  d_hash :: "string option"

datatype pyobj = Instance block | JDict block_data

definition getattr_hash :: "pyobj \<Rightarrow> error + string" where
  "getattr_hash obj =
     (case obj of
        Instance b \<Rightarrow> (case hash b of None \<Rightarrow> Inl AttributeError | Some h \<Rightarrow> Inr h)
      | JDict d \<Rightarrow> Inl AttributeError)"

definition delattr_hash :: "pyobj \<Rightarrow> error + pyobj" where
  "delattr_hash obj =
     (case obj of
        Instance b \<Rightarrow>
          (case hash b of None \<Rightarrow> Inl AttributeError | Some h \<Rightarrow> Inr (Instance (b\<lparr>hash := None\<rparr>)))
      | JDict d \<Rightarrow> Inl AttributeError)"

definition setattr_hash :: "pyobj \<Rightarrow> string \<Rightarrow> error + pyobj" where
  "setattr_hash obj h =
     (case obj of
        Instance b \<Rightarrow> Inr (Instance (b\<lparr>hash := Some h\<rparr>))
      | JDict d \<Rightarrow> Inl AttributeError)"

definition getattr_previous_hash :: "pyobj \<Rightarrow> error + string" where
  "getattr_previous_hash obj =
     (case obj of Instance b \<Rightarrow> Inr (previous_hash b) | JDict d \<Rightarrow> Inl AttributeError)"

text \<open>
  \<^verbatim>\<open>cls.is_valid(block, h)\<close> on such an element: \<^verbatim>\<open>and\<close> calls
  \<^verbatim>\<open>block.compute_hash()\<close> only when the prefix test holds.
\<close>

definition obj_is_valid :: "(string \<Rightarrow> string) \<Rightarrow> pyobj \<Rightarrow> string \<Rightarrow> error + bool" where
  "obj_is_valid H obj h =
     (case obj of
        Instance b \<Rightarrow> Inr (is_valid H b h)
      | JDict d \<Rightarrow>
          if startswith h (replicate difficulty (CHR ''0'')) then Inl AttributeError
          else Inr False)"

text \<open>
  The loop of lines 142-153, with \<open>previous_hash\<close> the local of that name. Line 143 reads
  \<^verbatim>\<open>block.hash\<close>, line 146 deletes the attribute, and line 148 reads \<^verbatim>\<open>block.hash\<close>
  again as an argument of \<^verbatim>\<open>is_valid\<close>. The second component is the list as the call
  leaves it.
\<close>

fun check_chain_loop ::
  "(string \<Rightarrow> string) \<Rightarrow> string \<Rightarrow> pyobj list \<Rightarrow> (error + bool) \<times> pyobj list" where
  "check_chain_loop H previous_hash_local [] = (Inr True, [])"
| "check_chain_loop H previous_hash_local (blk # rest) =
     (case getattr_hash blk of
        Inl e \<Rightarrow> (Inl e, blk # rest)
      | Inr block_hash \<Rightarrow>
     (case delattr_hash blk of
        Inl e \<Rightarrow> (Inl e, blk # rest)
      | Inr blk1 \<Rightarrow>
     (case getattr_hash blk1 of
        Inl e \<Rightarrow> (Inl e, blk1 # rest)
      | Inr h \<Rightarrow>
     (case obj_is_valid H blk1 h of
        Inl e \<Rightarrow> (Inl e, blk1 # rest)
      | Inr valid \<Rightarrow>
          if \<not> valid then (Inr False, blk1 # rest)
          else
     (case getattr_previous_hash blk1 of
        Inl e \<Rightarrow> (Inl e, blk1 # rest)
      | Inr ph \<Rightarrow>
          if previous_hash_local \<noteq> ph then (Inr False, blk1 # rest)
          else
     (case setattr_hash blk1 block_hash of
        Inl e \<Rightarrow> (Inl e, blk1 # rest)
      | Inr blk2 \<Rightarrow>
          (case check_chain_loop H block_hash rest of
             (r, rest') \<Rightarrow> (r, blk2 # rest'))))))))"

definition check_chain_validity ::
  "(string \<Rightarrow> string) \<Rightarrow> pyobj list \<Rightarrow> (error + bool) \<times> pyobj list" where
  "check_chain_validity H chain_arg = check_chain_loop H ''0'' chain_arg"

subsection \<open>Consensus\<close>

text \<open>
  \<^verbatim>\<open>consensus\<close>, lines 158-181. The global \<^verbatim>\<open>blockchain\<close> is a \<^verbatim>\<open>Blockchain\<close> instance
  until line 178 rebinds it to the list a peer sent. \<open>fetch node\<close> is what the peer's
  \<^verbatim>\<open>/chain\<close> answer decodes to: the reported length and the chain. Every pass of the loop
  reads the global \<^verbatim>\<open>requests\<close> first.
\<close>

datatype global_blockchain = Ledger blockchain | PeerChain "pyobj list"

fun consensus_loop ::
  "namespace \<Rightarrow> (string \<Rightarrow> string) \<Rightarrow> (string \<Rightarrow> int \<times> pyobj list) \<Rightarrow> string list
     \<Rightarrow> int \<Rightarrow> pyobj list option \<Rightarrow> error + pyobj list option" where
  "consensus_loop ns H fetch [] current_len longest_chain = Inr longest_chain"
| "consensus_loop ns H fetch (node # nodes) current_len longest_chain =
     (if \<not> global_requests ns then Inl NameError
      else case fetch node of
        (len, chain_arg) \<Rightarrow>
          if len > current_len
          then (case check_chain_validity H chain_arg of
                  (Inl e, chain') \<Rightarrow> Inl e
                | (Inr ok, chain') \<Rightarrow>
                    if ok then consensus_loop ns H fetch nodes len (Some chain')
                    else consensus_loop ns H fetch nodes current_len longest_chain)
          else consensus_loop ns H fetch nodes current_len longest_chain)"

definition consensus ::
  "namespace \<Rightarrow> (string \<Rightarrow> string) \<Rightarrow> (string \<Rightarrow> int \<times> pyobj list) \<Rightarrow> string list
     \<Rightarrow> global_blockchain \<Rightarrow> (error + bool) \<times> global_blockchain" where
  "consensus ns H fetch participants g =
     (case g of
        PeerChain c \<Rightarrow> (Inl AttributeError, g)
      | Ledger bc \<Rightarrow>
          (case consensus_loop ns H fetch participants (int (length (chain bc))) None of
             Inl e \<Rightarrow> (Inl e, g)
           | Inr None \<Rightarrow> (Inr False, g)
           | Inr (Some longest) \<Rightarrow>
               if longest \<noteq> [] then (Inr True, PeerChain longest) else (Inr False, g)))"

subsection \<open>Rebuilding a ledger from a dump\<close>

text \<open>
  \<^verbatim>\<open>create_chain_from_dump\<close>, lines 283-297. \<^verbatim>\<open>Blockchain()\<close> takes the clock's readings
  0 and 1, the block of position \<open>idx\<close> the reading \<open>idx + 2\<close>. The block of position 0 is
  appended behind the genesis block that \<^verbatim>\<open>Blockchain()\<close> made. A block that
  \<^verbatim>\<open>add_block\<close> refuses ends the call with line 294's exception.
\<close>

fun dump_loop ::
  "namespace \<Rightarrow> (string \<Rightarrow> string) \<Rightarrow> (nat \<Rightarrow> string) \<Rightarrow> nat \<Rightarrow> block_data list
     \<Rightarrow> blockchain \<Rightarrow> error + blockchain" where
  "dump_loop ns H clock idx [] bc = Inr bc"
| "dump_loop ns H clock idx (block_data # rest) bc =
     (case d_index block_data of None \<Rightarrow> Inl KeyError | Some i \<Rightarrow>
     (case d_transactions block_data of None \<Rightarrow> Inl KeyError | Some txs \<Rightarrow>
     (case d_timestamp block_data of None \<Rightarrow> Inl KeyError | Some ts \<Rightarrow>
     (case d_previous_hash block_data of None \<Rightarrow> Inl KeyError | Some ph \<Rightarrow>
     (case Block_init ns i txs ts ph (clock (idx + 2)) of Inl e \<Rightarrow> Inl e | Inr blk \<Rightarrow>
     (case d_hash block_data of None \<Rightarrow> Inl KeyError | Some proof \<Rightarrow>
        if idx > 0
        then (case add_block H bc blk proof of
                (Inl e, bc') \<Rightarrow> Inl e
              | (Inr added, bc') \<Rightarrow>
                  if \<not> added then Inl (Exception ''The chain dump is tampered!!'')
                  else dump_loop ns H clock (idx + 1) rest bc')
        else dump_loop ns H clock (idx + 1) rest (bc\<lparr>chain := chain bc @ [blk]\<rparr>)))))))"

definition create_chain_from_dump ::
  "namespace \<Rightarrow> (string \<Rightarrow> string) \<Rightarrow> (nat \<Rightarrow> string) \<Rightarrow> block_data list \<Rightarrow> error + blockchain" where
  "create_chain_from_dump ns H clock chain_dump =
     (case Blockchain_init ns H clock of
        Inl e \<Rightarrow> Inl e
      | Inr bc \<Rightarrow> dump_loop ns H clock 0 chain_dump bc)"

text \<open>
  Lines 274-275 of \<^verbatim>\<open>register_with_existing_node\<close>: the global \<^verbatim>\<open>blockchain\<close> is
  rebound only when \<^verbatim>\<open>create_chain_from_dump\<close> returns.
\<close>

definition sync_from_dump ::
  "namespace \<Rightarrow> (string \<Rightarrow> string) \<Rightarrow> (nat \<Rightarrow> string) \<Rightarrow> block_data list \<Rightarrow> global_blockchain
     \<Rightarrow> error option \<times> global_blockchain" where
  "sync_from_dump ns H clock chain_dump g =
     (case create_chain_from_dump ns H clock chain_dump of
        Inl e \<Rightarrow> (Some e, g)
      | Inr bc \<Rightarrow> (None, Ledger bc))"

subsection \<open>The specification's predicates\<close>

text \<open>
  The specification's \<^verbatim>\<open>block_satisfies_difficulty(hash, difficulty)\<close>, in its words:
  the hash begins with \<open>d\<close> zero digits.
\<close>

definition block_satisfies_difficulty :: "string \<Rightarrow> nat \<Rightarrow> bool" where
  "block_satisfies_difficulty h d = (d \<le> length h \<and> list_all (\<lambda>c. c = CHR ''0'') (take d h))"

text \<open>
  The specification's \<^verbatim>\<open>is_block_valid\<close> and \<^verbatim>\<open>is_chain_valid\<close>, in its words: every
  block after the first carries the stored hash of the block before it and is valid for
  its own stored hash; the genesis block is exempt from both checks, but its stored hash
  is its digest.
\<close>

definition spec_is_block_valid :: "(string \<Rightarrow> string) \<Rightarrow> nat \<Rightarrow> block \<Rightarrow> string \<Rightarrow> bool" where
  "spec_is_block_valid H d blk claimed_hash =
     (claimed_hash = compute_hash H blk \<and> block_satisfies_difficulty claimed_hash d)"

fun spec_links :: "(string \<Rightarrow> string) \<Rightarrow> nat \<Rightarrow> block \<Rightarrow> block list \<Rightarrow> bool" where
  "spec_links H d prev [] = True"
| "spec_links H d prev (b # bs) =
     (case hash b of
        None \<Rightarrow> False
      | Some h \<Rightarrow>
          hash prev = Some (previous_hash b) \<and> spec_is_block_valid H d b h \<and> spec_links H d b bs)"

definition spec_is_chain_valid :: "(string \<Rightarrow> string) \<Rightarrow> nat \<Rightarrow> block list \<Rightarrow> bool" where
  "spec_is_chain_valid H d chain_arg =
     (case chain_arg of
        [] \<Rightarrow> True
      | g # bs \<Rightarrow> hash g = Some (compute_hash H g) \<and> spec_links H d g bs)"

subsection \<open>Concrete inputs\<close>

text \<open>
  The theorems below hold for every digest function \<open>H\<close>. Where one is evaluated on a
  concrete input, \<open>toy_digest\<close> stands in for SHA-256: it prefixes the header with two
  zeros when the header contains the digit 2, and with \<open>f\<close> otherwise.
\<close>

definition toy_digest :: "string \<Rightarrow> string" where
  "toy_digest s = (if CHR ''2'' \<in> set s then ''00'' @ s else ''f'' @ s)"

text \<open>
  A namespace in which the three names resolve: \<^verbatim>\<open>generate_hash\<close> to \<^verbatim>\<open>compute_hash\<close>,
  the bare \<^verbatim>\<open>difficulty\<close> to the class attribute, \<^verbatim>\<open>requests\<close> to an imported module.
\<close>

definition resolved :: "(string \<Rightarrow> string) \<Rightarrow> namespace" where
  "resolved H =
     \<lparr>Block_generate_hash = Some (compute_hash H), global_difficulty = Some difficulty,
      global_requests = True\<rparr>"

definition genesis0 :: block where
  "genesis0 =
     \<lparr>index = 0, time_stamp = ''t'', transactions = [], previous_hash = ''0'', nonce = 0,
      hash = Some ''ft[]00''\<rparr>"

definition blk0 :: block where
  "blk0 =
     \<lparr>index = 1, time_stamp = ''t'', transactions = [], previous_hash = ''0'', nonce = 0,
      hash = None\<rparr>"

definition blk6 :: block where
  "blk6 =
     \<lparr>index = 1, time_stamp = ''t'', transactions = [], previous_hash = ''ft[]00'', nonce = 2,
      hash = Some ''stale''\<rparr>"

definition ledger0 :: blockchain where
  "ledger0 =
     \<lparr>chain = [genesis0], unconfirmed_transactions = [''tx''], previous_block = Some ''ft[]00''\<rparr>"

definition ledger1 :: blockchain where
  "ledger1 =
     \<lparr>chain = [genesis0], unconfirmed_transactions = [], previous_block = Some ''ft[]00''\<rparr>"

definition entry0 :: block_data where
  "entry0 =
     \<lparr>d_index = Some 0, d_transactions = Some [], d_timestamp = Some ''2'',
      d_previous_hash = Some ''0'', d_hash = Some ''002[]00''\<rparr>"

definition entry1 :: block_data where
  "entry1 =
     \<lparr>d_index = Some 1, d_transactions = Some [], d_timestamp = Some ''2'',
      d_previous_hash = Some ''002[]00'', d_hash = Some ''002[]002[]000''\<rparr>"

definition entry1_tampered :: block_data where
  "entry1_tampered = entry1\<lparr>d_previous_hash := Some ''bad''\<rparr>"

definition peer_answer :: "string \<Rightarrow> int \<times> pyobj list" where
  "peer_answer node = (2, [JDict entry0, JDict entry1])"

text \<open>
  A clock that always reads \<open>2\<close>, and a chain of two blocks that the specification's
  rule accepts under \<open>toy_digest\<close>: the stored hash of each block is its digest and
  begins with two zeros, the first block has the previous hash \<open>0\<close>, and the second
  carries the stored hash of the first.
\<close>

definition clock2 :: "nat \<Rightarrow> string" where
  "clock2 k = ''2''"

definition rebuilt0 :: block where
  "rebuilt0 =
     \<lparr>index = 0, time_stamp = ''2'', transactions = [], previous_hash = ''0'', nonce = 0,
      hash = Some ''002[]00''\<rparr>"

definition rebuilt1 :: block where
  "rebuilt1 =
     \<lparr>index = 1, time_stamp = ''2'', transactions = [], previous_hash = ''002[]00'', nonce = 0,
      hash = Some ''002[]002[]000''\<rparr>"

section \<open>Properties\<close>

subsection \<open>Evaluating the renderings\<close>

lemma str_int_0: "str_int 0 = ''0''"
  by (simp add: str_int_def digit_char_def)

lemma str_int_2: "str_int 2 = ''2''"
  by (simp add: str_int_def digit_char_def)

lemma str_list_Nil: "str_list [] = ''[]''"
  by (simp add: str_list_def)

lemma digest_genesis0: "compute_hash toy_digest genesis0 = ''ft[]00''"
  by (simp add: genesis0_def compute_hash_def str_list_Nil str_int_0 toy_digest_def)

lemma digest_blk0: "compute_hash toy_digest blk0 = ''ft[]00''"
  by (simp add: blk0_def compute_hash_def str_list_Nil str_int_0 toy_digest_def)

lemma digest_blk6: "compute_hash toy_digest blk6 = ''00t[]ft[]002''"
  by (simp add: blk6_def compute_hash_def str_list_Nil str_int_2 toy_digest_def)

lemma toy_digest_2: "toy_digest (CHR ''2'' # s) = ''002'' @ s"
  by (simp add: toy_digest_def)

lemma digest_rebuilt0: "compute_hash toy_digest rebuilt0 = ''002[]00''"
  by (simp add: rebuilt0_def compute_hash_def str_list_Nil str_int_0 toy_digest_2)

lemma digest_rebuilt1: "compute_hash toy_digest rebuilt1 = ''002[]002[]000''"
  by (simp add: rebuilt1_def compute_hash_def str_list_Nil str_int_0 toy_digest_2)

lemma zeros2: "replicate difficulty (CHR ''0'') = ''00''"
  by (simp add: difficulty_def numeral_2_eq_2)

subsection \<open>Validating one block\<close>

lemma startswith_zeros:
  "startswith h (replicate d (CHR ''0'')) \<longleftrightarrow> block_satisfies_difficulty h d"
proof (induction d arbitrary: h)
  case 0
  show ?case by (simp add: startswith_def block_satisfies_difficulty_def)
next
  case (Suc d)
  show ?case
  proof (cases h)
    case Nil
    then show ?thesis by (simp add: startswith_def block_satisfies_difficulty_def)
  next
    case (Cons c cs)
    with Suc [of cs] show ?thesis
      by (auto simp add: startswith_def block_satisfies_difficulty_def)
  qed
qed

lemma is_valid_blk6: "is_valid toy_digest blk6 ''00t[]ft[]002''"
  by (simp add: is_valid_def zeros2 startswith_def digest_blk6)

text \<open>
  C5. \<^verbatim>\<open>is_valid(block, block_hash)\<close> is true exactly when the claimed hash is the
  block's recomputed digest and begins with \<open>difficulty\<close> zero digits; neither conjunct
  can be dropped.
\<close>

theorem is_valid_iff:
  "is_valid H blk claimed_hash \<longleftrightarrow>
     claimed_hash = compute_hash H blk \<and> block_satisfies_difficulty claimed_hash difficulty"
  unfolding is_valid_def startswith_zeros by blast

theorem is_valid_iff_witness:
  "is_valid toy_digest blk6 ''00t[]ft[]002'' \<and> \<not> is_valid toy_digest blk0 ''ft[]00''
     \<and> \<not> is_valid toy_digest blk0 ''00t[]ft[]002''"
proof -
  have a: "is_valid toy_digest blk6 ''00t[]ft[]002''"
    using is_valid_iff [of toy_digest blk6 "''00t[]ft[]002''"]
    by (simp add: digest_blk6 block_satisfies_difficulty_def difficulty_def)
  have b: "\<not> is_valid toy_digest blk0 ''ft[]00''"
    using is_valid_iff [of toy_digest blk0 "''ft[]00''"]
    by (simp add: digest_blk0 block_satisfies_difficulty_def difficulty_def)
  have c: "\<not> is_valid toy_digest blk0 ''00t[]ft[]002''"
    using is_valid_iff [of toy_digest blk0 "''00t[]ft[]002''"]
    by (simp add: digest_blk0 block_satisfies_difficulty_def difficulty_def)
  from a b c show ?thesis by simp
qed

subsection \<open>Validating a chain\<close>

lemma check_chain_loop_Instance:
  "check_chain_loop H p (Instance b # rest) =
     (Inl AttributeError, Instance (b\<lparr>hash := None\<rparr>) # rest)"
  by (cases "hash b") (simp_all add: getattr_hash_def delattr_hash_def)

lemma check_chain_loop_JDict:
  "check_chain_loop H p (JDict d # rest) = (Inl AttributeError, JDict d # rest)"
  by (simp add: getattr_hash_def)

lemma check_chain_loop_verdict:
  assumes "check_chain_loop H p chain_arg = (Inr verdict, chain')"
  shows "chain_arg = [] \<and> verdict \<and> chain' = []"
proof (cases chain_arg)
  case Nil
  with assms show ?thesis by simp
next
  case (Cons obj rest)
  show ?thesis
  proof (cases obj)
    case (Instance b)
    with assms Cons
    have "(Inl AttributeError, Instance (b\<lparr>hash := None\<rparr>) # rest) = (Inr verdict, chain')"
      by (simp only: check_chain_loop_Instance)
    then show ?thesis by simp
  next
    case (JDict d)
    with assms Cons
    have "(Inl AttributeError, JDict d # rest) = (Inr verdict, chain')"
      by (simp only: check_chain_loop_JDict)
    then show ?thesis by simp
  qed
qed

text \<open>
  C9. On every chain with at least one block, \<^verbatim>\<open>check_chain_validity\<close> deletes the
  stored hash of the first block (line 146), reads the deleted attribute (line 148) and
  so raises \<^verbatim>\<open>AttributeError\<close> instead of returning a boolean; the block is left
  without its hash, which no path restores. (A first block that has no stored hash
  to begin with raises the same error one step earlier, on line 143.)
\<close>

theorem check_chain_validity_raises:
  "check_chain_validity H (Instance b # rest) =
     (Inl AttributeError, Instance (b\<lparr>hash := None\<rparr>) # rest)"
  unfolding check_chain_validity_def by (rule check_chain_loop_Instance)

theorem check_chain_validity_raises_witness:
  "check_chain_validity toy_digest [Instance genesis0, Instance blk6] =
     (Inl AttributeError, [Instance (genesis0\<lparr>hash := None\<rparr>), Instance blk6])
   \<and> hash genesis0 = Some ''ft[]00'' \<and> hash (genesis0\<lparr>hash := None\<rparr>) = None"
  using check_chain_validity_raises [of toy_digest genesis0 "[Instance blk6]"]
  by (simp add: genesis0_def)

lemma spec_accepts_rebuilt: "spec_is_chain_valid toy_digest difficulty [rebuilt0, rebuilt1]"
proof -
  have "block_satisfies_difficulty ''002[]002[]000'' difficulty"
    by (simp add: block_satisfies_difficulty_def difficulty_def)
  moreover have "hash rebuilt0 = Some ''002[]00''" "hash rebuilt1 = Some ''002[]002[]000''"
    "previous_hash rebuilt1 = ''002[]00''"
    by (simp_all add: rebuilt0_def rebuilt1_def)
  ultimately show ?thesis
    by (simp add: spec_is_chain_valid_def spec_is_block_valid_def digest_rebuilt0
        digest_rebuilt1)
qed

text \<open>
  C1 fails on the code. The chain \<open>[rebuilt0, rebuilt1]\<close> is valid by the rule the claim
  states: the second block carries the stored hash of the first and is valid for its own
  stored hash, and the stored hash of the first block is its digest. On that chain
  \<^verbatim>\<open>check_chain_validity\<close> returns no verdict: line 146 deletes the stored hash of the
  first block, line 148 reads it, and the call raises \<^verbatim>\<open>AttributeError\<close>.
\<close>

theorem check_chain_validity_rejects_valid_chain:
  "spec_is_chain_valid toy_digest difficulty [rebuilt0, rebuilt1] \<and>
   check_chain_validity toy_digest [Instance rebuilt0, Instance rebuilt1] =
     (Inl AttributeError, [Instance (rebuilt0\<lparr>hash := None\<rparr>), Instance rebuilt1])"
proof -
  have "check_chain_validity toy_digest [Instance rebuilt0, Instance rebuilt1] =
      (Inl AttributeError, [Instance (rebuilt0\<lparr>hash := None\<rparr>), Instance rebuilt1])"
    unfolding check_chain_validity_def by (rule check_chain_loop_Instance)
  with spec_accepts_rebuilt show ?thesis by blast
qed

subsection \<open>Mining\<close>

lemma proof_of_work_unbound:
  "global_difficulty ns = None \<Longrightarrow> proof_of_work ns H blk = Some (Inl NameError, blk)"
  by (simp add: proof_of_work_def proof_of_work_loop.simps)

text \<open>
  C2 fails on the module as written: the first test of the loop reads the unbound name
  \<^verbatim>\<open>difficulty\<close>, so \<^verbatim>\<open>proof_of_work\<close> raises \<^verbatim>\<open>NameError\<close> and returns no digest.
\<close>

theorem proof_of_work_raises:
  "proof_of_work node_server toy_digest blk0 = Some (Inl NameError, blk0)"
  by (rule proof_of_work_unbound) (simp add: node_server_def)

text \<open>
  Where the name resolves to the class attribute, the search ends at nonce 2 for
  \<open>blk0\<close>, but line 106 has set the nonce back to 0 on return: the block's digest is
  no longer the digest returned.
\<close>

lemma digest_blk0_1: "compute_hash toy_digest (blk0\<lparr>nonce := 1\<rparr>) = ''ft[]01''"
  by (simp add: blk0_def compute_hash_def str_list_Nil str_int_def digit_char_def toy_digest_def)

lemma digest_blk0_2: "compute_hash toy_digest (blk0\<lparr>nonce := 2\<rparr>) = ''00t[]02''"
  by (simp add: blk0_def compute_hash_def str_list_Nil str_int_2 toy_digest_def)

lemma proof_of_work_loop_blk0:
  "proof_of_work_loop toy_digest (Some 2) blk0 ''ft[]00'' =
     Some (Inr ''00t[]02'', blk0\<lparr>nonce := 2\<rparr>)"
proof -
  have n1: "blk0\<lparr>nonce := nonce blk0 + 1\<rparr> = blk0\<lparr>nonce := 1\<rparr>"
    by (simp add: blk0_def)
  have n2: "blk0\<lparr>nonce := 1, nonce := nonce (blk0\<lparr>nonce := 1\<rparr>) + 1\<rparr> = blk0\<lparr>nonce := 2\<rparr>"
    by (simp add: blk0_def)
  have "proof_of_work_loop toy_digest (Some 2) (blk0\<lparr>nonce := 2\<rparr>) ''00t[]02'' =
          Some (Inr ''00t[]02'', blk0\<lparr>nonce := 2\<rparr>)"
    by (subst proof_of_work_loop.simps) (simp add: zeros2)
  then have "proof_of_work_loop toy_digest (Some 2) (blk0\<lparr>nonce := 1\<rparr>) ''ft[]01'' =
          Some (Inr ''00t[]02'', blk0\<lparr>nonce := 2\<rparr>)"
    by (subst proof_of_work_loop.simps) (simp add: zeros2 n2 digest_blk0_2)
  then show ?thesis
    by (subst proof_of_work_loop.simps) (simp add: zeros2 n1 digest_blk0_1)
qed

lemma proof_of_work_resets_nonce:
  "proof_of_work (resolved toy_digest) toy_digest blk0 = Some (Inr ''00t[]02'', blk0) \<and>
   compute_hash toy_digest blk0 \<noteq> ''00t[]02''"
proof -
  have "blk0\<lparr>nonce := 2, nonce := 0\<rparr> = blk0"
    by (simp add: blk0_def)
  then show ?thesis
    by (simp add: proof_of_work_def resolved_def difficulty_def digest_blk0
        proof_of_work_loop_blk0)
qed

lemma proof_of_work_loop_meets_test:
  assumes "proof_of_work_loop H gd blk p = Some res"
  shows "gd = Some d \<and> p = compute_hash H blk \<and> res = (Inr digest, blk') \<longrightarrow>
           take d digest = replicate difficulty (CHR ''0'') \<and> digest = compute_hash H blk'"
  using assms
proof (rule proof_of_work_loop.raw_induct [rotated])
  fix loop :: "(string \<Rightarrow> string) \<Rightarrow> nat option \<Rightarrow> block \<Rightarrow> string
      \<Rightarrow> ((error + string) \<times> block) option"
  fix H gd blk p res
  assume IH: "\<And>H gd blk p res. loop H gd blk p = Some res \<Longrightarrow>
      gd = Some d \<and> p = compute_hash H blk \<and> res = (Inr digest, blk') \<longrightarrow>
        take d digest = replicate difficulty (CHR ''0'') \<and> digest = compute_hash H blk'"
  assume body: "(case gd of
        None \<Rightarrow> Some (Inl NameError, blk)
      | Some d \<Rightarrow>
          if take d p \<noteq> replicate difficulty (CHR ''0'')
          then loop H gd (blk\<lparr>nonce := nonce blk + 1\<rparr>)
                 (compute_hash H (blk\<lparr>nonce := nonce blk + 1\<rparr>))
          else Some (Inr p, blk)) = Some res"
  show "gd = Some d \<and> p = compute_hash H blk \<and> res = (Inr digest, blk') \<longrightarrow>
      take d digest = replicate difficulty (CHR ''0'') \<and> digest = compute_hash H blk'"
  proof (intro impI, elim conjE)
    assume gd: "gd = Some d" and p: "p = compute_hash H blk" and res: "res = (Inr digest, blk')"
    show "take d digest = replicate difficulty (CHR ''0'') \<and> digest = compute_hash H blk'"
    proof (cases "take d p \<noteq> replicate difficulty (CHR ''0'')")
      case True
      with body gd have "loop H gd (blk\<lparr>nonce := nonce blk + 1\<rparr>)
          (compute_hash H (blk\<lparr>nonce := nonce blk + 1\<rparr>)) = Some res"
        by simp
      from IH [OF this] gd res show ?thesis by blast
    next
      case False
      with body gd p res show ?thesis by auto
    qed
  qed
qed

text \<open>
  Where the bare name resolves, a digest that \<^verbatim>\<open>proof_of_work\<close> returns meets the
  loop's test, and the block comes back with nonce 0: its digest is the one returned
  only as far as the digest at nonce 0 is.
\<close>

lemma proof_of_work_returns:
  assumes "proof_of_work ns H blk = Some (Inr digest, blk')"
  shows "\<exists>d winner. global_difficulty ns = Some d \<and>
           take d digest = replicate difficulty (CHR ''0'') \<and>
           digest = compute_hash H winner \<and> blk' = winner\<lparr>nonce := 0\<rparr>"
proof -
  from assms obtain winner where
    loop: "proof_of_work_loop H (global_difficulty ns) blk (compute_hash H blk) =
             Some (Inr digest, winner)" and
    blk': "blk' = winner\<lparr>nonce := 0\<rparr>"
    by (auto simp add: proof_of_work_def split: option.splits sum.splits prod.splits)
  from assms obtain d where d: "global_difficulty ns = Some d"
    by (cases "global_difficulty ns") (simp_all add: proof_of_work_unbound)
  from proof_of_work_loop_meets_test [OF loop, of d digest winner] d
  have "take d digest = replicate difficulty (CHR ''0'') \<and> digest = compute_hash H winner"
    by blast
  with d blk' show ?thesis by blast
qed

subsection \<open>Constructing a block\<close>

text \<open>
  C8 fails on the code: the constructor does not return a block with its hash left
  unset. After it has stored the index, the transactions, the clock's reading, the
  previous hash and the nonce 0, line 26 calls \<^verbatim>\<open>self.generate_hash()\<close>, which the class
  does not define; the call raises \<^verbatim>\<open>AttributeError\<close> and no block is constructed.
\<close>

theorem Block_init_raises:
  "Block_init node_server 1 [''tx''] ''arg'' ''0'' ''now'' = Inl AttributeError"
  by (simp add: Block_init_def node_server_def)

subsection \<open>Appending a block\<close>

lemma add_block_rejects:
  "fst (add_block H self blk p) \<noteq> Inr True \<Longrightarrow> snd (add_block H self blk p) = self"
  by (auto simp add: add_block_def split: sum.splits option.splits)

lemma add_block_accepts:
  "add_block H self blk p = (Inr True, self') \<Longrightarrow>
     self' = self\<lparr>chain := chain self @ [blk]\<rparr> \<and> chain self \<noteq> [] \<and>
     hash (last (chain self)) = Some (previous_hash blk) \<and> is_valid H blk p"
  by (auto simp add: add_block_def last_block_def split: sum.splits option.splits if_splits)

lemma add_block_length:
  "length (chain self) \<le> length (chain (snd (add_block H self blk p)))"
  by (auto simp add: add_block_def split: sum.splits option.splits)

text \<open>
  C6 fails on acceptance: \<^verbatim>\<open>add_block\<close> accepts \<open>blk6\<close> with the valid claimed hash
  \<open>00t[]ft[]002\<close>, and the block stands in the chain with the hash it came with:
  line 87 assigns the local name \<^verbatim>\<open>proof\<close>, not \<^verbatim>\<open>block.hash\<close>.
\<close>

theorem add_block_keeps_hash:
  "add_block toy_digest ledger1 blk6 ''00t[]ft[]002'' =
     (Inr True, ledger1\<lparr>chain := [genesis0, blk6]\<rparr>) \<and>
   hash (last [genesis0, blk6]) = Some ''stale''"
proof -
  have "last_block ledger1 = Inr genesis0"
    by (simp add: last_block_def ledger1_def)
  moreover have "hash genesis0 = Some ''ft[]00''" "previous_hash blk6 = ''ft[]00''"
    "hash blk6 = Some ''stale''" "chain ledger1 = [genesis0]"
    by (simp_all add: genesis0_def blk6_def ledger1_def)
  ultimately show ?thesis
    by (simp add: add_block_def is_valid_blk6)
qed

subsection \<open>Creating a ledger\<close>

lemma Block_init_unbound:
  "Block_generate_hash ns = None \<Longrightarrow> Block_init ns i txs ts ph now = Inl AttributeError"
  by (simp add: Block_init_def)

lemma Blockchain_init_unbound:
  "Block_generate_hash ns = None \<Longrightarrow> Blockchain_init ns H clock = Inl AttributeError"
  by (simp add: Blockchain_init_def genesis_block_def Block_init_unbound)

text \<open>
  C10 fails on the module as written: \<^verbatim>\<open>Blockchain()\<close> raises in the constructor of
  the genesis block, so no ledger and no genesis block come into being.
\<close>

theorem Blockchain_init_raises:
  "Blockchain_init node_server H clock = Inl AttributeError"
  by (rule Blockchain_init_unbound) (simp add: node_server_def)

text \<open>
  Past that call the claim holds of the model: a ledger that \<^verbatim>\<open>Blockchain()\<close> returns
  has the genesis block alone, and no operation shortens the chain.
\<close>

lemma compute_hash_ignores_hash: "compute_hash H (b\<lparr>hash := h\<rparr>) = compute_hash H b"
  by (simp add: compute_hash_def)

lemma Blockchain_init_genesis:
  "Blockchain_init ns H clock = Inr self \<Longrightarrow>
     (\<exists>g. chain self = [g] \<and> index g = 0 \<and> previous_hash g = ''0'' \<and> transactions g = [] \<and>
          hash g = Some (compute_hash H g) \<and> previous_block self = hash g) \<and>
     unconfirmed_transactions self = []"
proof -
  assume a: "Blockchain_init ns H clock = Inr self"
  then obtain gh where gh: "Block_generate_hash ns = Some gh"
    by (cases "Block_generate_hash ns")
      (simp_all add: Blockchain_init_def genesis_block_def Block_init_def)
  define g0 where "g0 = \<lparr>index = 0, time_stamp = clock 1, transactions = [],
    previous_hash = ''0'', nonce = 0, hash = None :: string option\<rparr>"
  define g where "g = g0\<lparr>hash := Some (compute_hash H g0)\<rparr>"
  have "Block_init ns 0 [] (clock 0) ''0'' (clock 1) = Inr (g0\<lparr>hash := Some (gh g0)\<rparr>)"
    by (simp add: Block_init_def gh g0_def)
  then have "Blockchain_init ns H clock =
      Inr \<lparr>chain = [g], unconfirmed_transactions = [], previous_block = hash g\<rparr>"
    by (simp add: Blockchain_init_def genesis_block_def last_block_def g_def
        compute_hash_ignores_hash)
  with a have "self = \<lparr>chain = [g], unconfirmed_transactions = [], previous_block = hash g\<rparr>"
    by simp
  moreover have "index g = 0" "previous_hash g = ''0''" "transactions g = []"
    "hash g = Some (compute_hash H g)"
    by (simp_all add: g_def g0_def compute_hash_def)
  ultimately show ?thesis by simp
qed

lemma add_new_transaction_chain: "chain (add_new_transaction self tx) = chain self"
  by (simp add: add_new_transaction_def)

subsection \<open>Mining the pending transactions\<close>

lemma bind_keywords_interface:
  "bind_keywords Block_init_params [''index'', ''transactions'', ''timestamp'', ''previous_hash'']
     = Some TypeError"
  by (simp add: bind_keywords_def Block_init_params_def)

lemma interface_cases:
  "interface ns H clock self =
     Some (if unconfirmed_transactions self = [] then Inr NothingToMine
           else if chain self = [] then Inl IndexError
           else if hash (last (chain self)) = None then Inl AttributeError
           else Inl TypeError, self)"
  by (auto simp add: interface_def last_block_def bind_keywords_interface split: option.splits)

text \<open>
  C3 fails on the code: with one transaction pending, \<^verbatim>\<open>interface\<close> builds no block,
  mines nothing, appends nothing and returns no index. The call on lines 122-125 raises
  \<^verbatim>\<open>TypeError\<close>, since the keyword \<^verbatim>\<open>timestamp\<close> is no parameter of
  \<^verbatim>\<open>Block.__init__\<close>; lines 127-132 are never reached, and the pending transaction
  stays in the pool.
\<close>

theorem interface_raises:
  "unconfirmed_transactions ledger0 = [''tx''] \<and>
   interface node_server toy_digest (\<lambda>k. ''t'') ledger0 = Some (Inl TypeError, ledger0)"
  by (simp add: interface_cases) (simp add: ledger0_def genesis0_def)

text \<open>
  The empty-pool half of the claim holds: with nothing pending the call returns
  \<^verbatim>\<open>False\<close> and changes nothing.
\<close>

lemma interface_nothing_to_mine:
  "unconfirmed_transactions self = [] \<Longrightarrow>
     interface ns H clock self = Some (Inr NothingToMine, self)"
  by (simp add: interface_def)

lemma interface_chain:
  "interface ns H clock self = Some (r, self') \<Longrightarrow> chain self' = chain self"
  by (simp add: interface_cases)

subsection \<open>Consensus\<close>

text \<open>
  C4 fails: with a one-block ledger and one peer that reports length 2 and sends a
  two-block chain, \<^verbatim>\<open>consensus\<close> raises instead of taking the peer's chain. On the module
  as written it is \<^verbatim>\<open>NameError\<close> (\<^verbatim>\<open>requests\<close> is unbound); with \<^verbatim>\<open>requests\<close>
  available it is the \<^verbatim>\<open>AttributeError\<close> of \<^verbatim>\<open>check_chain_validity\<close>.
\<close>

theorem consensus_raises:
  "consensus node_server toy_digest peer_answer [''peer''] (Ledger ledger1) =
     (Inl NameError, Ledger ledger1) \<and>
   consensus (resolved toy_digest) toy_digest peer_answer [''peer''] (Ledger ledger1) =
     (Inl AttributeError, Ledger ledger1)"
proof -
  have "check_chain_validity toy_digest [JDict entry0, JDict entry1] =
      (Inl AttributeError, [JDict entry0, JDict entry1])"
    unfolding check_chain_validity_def by (rule check_chain_loop_JDict)
  moreover have "chain ledger1 = [genesis0]"
    by (simp add: ledger1_def)
  ultimately show ?thesis
    by (simp add: consensus_def node_server_def resolved_def peer_answer_def)
qed

lemma consensus_loop_never_selects:
  "consensus_loop ns H fetch nodes cur best = Inr (Some c) \<Longrightarrow> best = Some c \<or> c = []"
proof (induction nodes arbitrary: cur best)
  case Nil
  then show ?case by simp
next
  case (Cons node nodes)
  obtain len chain_arg where f: "fetch node = (len, chain_arg)"
    by (cases "fetch node")
  obtain r chain' where v: "check_chain_validity H chain_arg = (r, chain')"
    by (cases "check_chain_validity H chain_arg")
  show ?case
  proof (cases "global_requests ns \<and> len > cur")
    case False
    with Cons f show ?thesis by (auto split: if_splits)
  next
    case True
    show ?thesis
    proof (cases r)
      case (Inl e)
      with Cons.prems f v True show ?thesis by simp
    next
      case (Inr ok)
      with v have nil: "ok \<longrightarrow> chain' = []"
        unfolding check_chain_validity_def by (blast dest: check_chain_loop_verdict)
      from Cons.prems f v True Inr
      have "(ok \<and> consensus_loop ns H fetch nodes len (Some chain') = Inr (Some c)) \<or>
            (\<not> ok \<and> consensus_loop ns H fetch nodes cur best = Inr (Some c))"
        by (simp split: if_splits)
      with Cons.IH nil show ?thesis by blast
    qed
  qed
qed

lemma consensus_keeps_ledger:
  "snd (consensus ns H fetch participants (Ledger bc)) = Ledger bc"
proof (cases "consensus_loop ns H fetch participants (int (length (chain bc))) None")
  case (Inl e)
  then show ?thesis by (simp add: consensus_def)
next
  case (Inr best)
  show ?thesis
  proof (cases best)
    case None
    with Inr show ?thesis by (simp add: consensus_def)
  next
    case (Some c)
    with Inr consensus_loop_never_selects [of ns H fetch participants _ None c]
    have "c = []" by simp
    with Inr Some show ?thesis by (simp add: consensus_def)
  qed
qed

subsection \<open>Rebuilding a ledger from a dump\<close>

lemma Block_init_resolved:
  "Block_init (resolved H) i txs ts ph now =
     Inr \<lparr>index = i, time_stamp = now, transactions = txs, previous_hash = ph, nonce = 0,
          hash = Some (H (now @ str_list txs @ ph @ ''0''))\<rparr>"
  by (simp add: Block_init_def resolved_def compute_hash_def str_int_0)

lemma Blockchain_init_resolved:
  "Blockchain_init (resolved toy_digest) toy_digest clock2 =
     Inr \<lparr>chain = [rebuilt0], unconfirmed_transactions = [], previous_block = Some ''002[]00''\<rparr>"
proof -
  have "Block_init (resolved toy_digest) 0 [] (clock2 0) ''0'' (clock2 1) = Inr rebuilt0"
    by (simp add: Block_init_resolved clock2_def str_list_Nil toy_digest_2 rebuilt0_def)
  moreover have "rebuilt0\<lparr>hash := Some ''002[]00''\<rparr> = rebuilt0" "hash rebuilt0 = Some ''002[]00''"
    by (simp_all add: rebuilt0_def)
  ultimately show ?thesis
    by (simp add: Blockchain_init_def genesis_block_def last_block_def digest_rebuilt0)
qed

lemma rebuild_entry0:
  "Block_init (resolved toy_digest) 0 [] ''2'' ''0'' (clock2 2) = Inr rebuilt0"
  by (simp add: Block_init_resolved clock2_def str_list_Nil toy_digest_2 rebuilt0_def)

lemma rebuild_entry1_tampered:
  "Block_init (resolved toy_digest) 1 [] ''2'' ''bad'' (clock2 3) =
     Inr (rebuilt1\<lparr>previous_hash := ''bad'', hash := Some ''002[]bad0''\<rparr>)"
  by (simp add: Block_init_resolved clock2_def str_list_Nil toy_digest_2 rebuilt1_def)

lemma add_tampered:
  "add_block toy_digest
     \<lparr>chain = [rebuilt0, rebuilt0], unconfirmed_transactions = [],
      previous_block = Some ''002[]00''\<rparr>
     (rebuilt1\<lparr>previous_hash := ''bad'', hash := Some ''002[]bad0''\<rparr>) ''002[]002[]000'' =
   (Inr False,
     \<lparr>chain = [rebuilt0, rebuilt0], unconfirmed_transactions = [],
      previous_block = Some ''002[]00''\<rparr>)"
proof -
  have "hash rebuilt0 = Some ''002[]00''"
    by (simp add: rebuilt0_def)
  then show ?thesis
    by (simp add: add_block_def last_block_def)
qed

text \<open>
  Where \<^verbatim>\<open>generate_hash\<close> resolves to \<^verbatim>\<open>compute_hash\<close>, the same dump runs into
  line 294: \<^verbatim>\<open>add_block\<close> refuses the second entry and the call raises
  \<^verbatim>\<open>Exception("The chain dump is tampered!!")\<close>.
\<close>

lemma rebuild_tampered:
  "create_chain_from_dump (resolved toy_digest) toy_digest clock2 [entry0, entry1_tampered] =
     Inl (Exception ''The chain dump is tampered!!'')"
  by (simp add: create_chain_from_dump_def Blockchain_init_resolved entry0_def entry1_def
      entry1_tampered_def rebuild_entry0 [simplified clock2_def]
      rebuild_entry1_tampered [simplified clock2_def] clock2_def add_tampered)

lemma create_chain_from_dump_unbound:
  "Block_generate_hash ns = None \<Longrightarrow>
     create_chain_from_dump ns H clock chain_dump = Inl AttributeError"
  by (simp add: create_chain_from_dump_def Blockchain_init_unbound)

text \<open>
  C7 fails on the code: a dump whose second entry names a wrong previous hash is not
  turned into a rejection outcome. \<^verbatim>\<open>Blockchain()\<close> on line 284 raises
  \<^verbatim>\<open>AttributeError\<close> before the dump is read, and the exception, not a rejection
  value, is what the caller gets; the caller's ledger stays as it was.
\<close>

theorem create_chain_from_dump_raises:
  "create_chain_from_dump node_server toy_digest clock2 [entry0, entry1_tampered] =
     Inl AttributeError \<and>
   sync_from_dump node_server toy_digest clock2 [entry0, entry1_tampered] (Ledger ledger1) =
     (Some AttributeError, Ledger ledger1)"
proof -
  have "create_chain_from_dump node_server toy_digest clock2 [entry0, entry1_tampered] =
      Inl AttributeError"
    by (rule create_chain_from_dump_unbound) (simp add: node_server_def)
  then show ?thesis
    by (simp add: sync_from_dump_def)
qed

end
